theory Spec2Isabelle
  imports Main "HOL-Library.Word" "HOL-Library.Signed_Division"
begin

section \<open>Machine integers and outcomes\<close>

text \<open>
  The decoder stage of \<^verbatim>\<open>AACDecoder.cpp\<close> computes with fixed-width C integers.
  \<^verbatim>\<open>Int\<close>, \<^verbatim>\<open>Int32\<close>, \<^verbatim>\<open>int32_t\<close> and \<^verbatim>\<open>status_t\<close> are 32-bit, \<^verbatim>\<open>int64_t\<close> is
  64-bit, and \<^verbatim>\<open>size_t\<close> is the 32-bit unsigned type of the ILP32 ARM targets of this
  release. Addition, subtraction and multiplication wrap around; a signed operand is
  read with \<open>sint\<close> and converted to a wider or unsigned type with \<open>scast\<close>.
\<close>

type_synonym byte = "8 word"
type_synonym int32 = "32 word"
type_synonym uint32 = "32 word"
type_synonym int64 = "64 word"
type_synonym size_t = "32 word"
type_synonym status_t = "32 word"

text \<open>
  A call either returns, or it does not come back: \<^verbatim>\<open>CHECK\<close> and \<^verbatim>\<open>CHECK_EQ\<close> abort the
  process, and a null dereference, an integer division by zero and a \<^verbatim>\<open>memset\<close> past
  the end of its block are undefined in C. Each is a value of its own.
\<close>

datatype fault = CHECK_failed | Null_dereference | Division_by_zero | Write_past_end

text \<open>\<^verbatim>\<open>a / b\<close> on \<^verbatim>\<open>int64_t\<close>: the quotient truncated towards zero.\<close>

definition div_int64 :: "int64 \<Rightarrow> int64 \<Rightarrow> int64" where
  "div_int64 a b = word_of_int (sint a sdiv sint b)"

text \<open>
  Modelled from the spec: the status constants of \<^verbatim>\<open>utils/Errors.h\<close> and
  \<^verbatim>\<open>MediaErrors.h\<close> and the engine's \<^verbatim>\<open>MP4AUDEC_SUCCESS\<close> are declared outside the
  sources at hand; success is 0 and "unsupported format" is a typed error other than
  success.
\<close>

definition OK :: status_t where
  "OK = 0"

definition ERROR_UNSUPPORTED :: status_t where
  "ERROR_UNSUPPORTED = - 1010"

definition MP4AUDEC_SUCCESS :: int32 where
  "MP4AUDEC_SUCCESS = 0"

section \<open>Collaborator data: MetaData, MediaBuffer, MediaBufferGroup\<close>

text \<open>
  Modelled from the spec: \<^verbatim>\<open>MetaData\<close> is declared outside the sources at hand. It is a
  dictionary from keys to typed items; a typed lookup answers only when the key is
  present with that type.
\<close>

datatype key =
  kKeyMIMEType | kKeyChannelCount | kKeySampleRate | kKeyDuration
  | kKeyDecoderComponent | kKeyESDS | kKeyTime | kKeyOther uint32

datatype item =
  TYPE_C_STRING string | TYPE_INT32 int32 | TYPE_INT64 int64 | TYPE_DATA uint32 "byte list"

type_synonym MetaData = "key \<rightharpoonup> item"

definition new_MetaData :: MetaData where
  "new_MetaData = Map.empty"

definition setCString :: "MetaData \<Rightarrow> key \<Rightarrow> string \<Rightarrow> MetaData" where
  "setCString m k v = m(k \<mapsto> TYPE_C_STRING v)"

definition setInt32 :: "MetaData \<Rightarrow> key \<Rightarrow> int32 \<Rightarrow> MetaData" where
  "setInt32 m k v = m(k \<mapsto> TYPE_INT32 v)"

definition setInt64 :: "MetaData \<Rightarrow> key \<Rightarrow> int64 \<Rightarrow> MetaData" where
  "setInt64 m k v = m(k \<mapsto> TYPE_INT64 v)"

definition findCString :: "MetaData \<Rightarrow> key \<Rightarrow> string option" where
  "findCString m k = (case m k of Some (TYPE_C_STRING v) \<Rightarrow> Some v | _ \<Rightarrow> None)"

definition findInt32 :: "MetaData \<Rightarrow> key \<Rightarrow> int32 option" where
  "findInt32 m k = (case m k of Some (TYPE_INT32 v) \<Rightarrow> Some v | _ \<Rightarrow> None)"

definition findInt64 :: "MetaData \<Rightarrow> key \<Rightarrow> int64 option" where
  "findInt64 m k = (case m k of Some (TYPE_INT64 v) \<Rightarrow> Some v | _ \<Rightarrow> None)"

definition findData :: "MetaData \<Rightarrow> key \<Rightarrow> (uint32 \<times> byte list) option" where
  "findData m k = (case m k of Some (TYPE_DATA t d) \<Rightarrow> Some (t, d) | _ \<Rightarrow> None)"

definition MEDIA_MIMETYPE_AUDIO_RAW :: string where
  "MEDIA_MIMETYPE_AUDIO_RAW = ''audio/raw''"

text \<open>
  Modelled from the spec: \<^verbatim>\<open>MediaBuffer\<close> is declared outside the sources at hand. A
  buffer has a backing store of fixed capacity, a window \<open>(offset, length)\<close> into it
  that \<open>set_range\<close> replaces, and a metadata dictionary. The bytes of a fresh block
  are whatever the allocator hands out, a parameter of the constructor.
\<close>

record MediaBuffer =
  mData :: "byte list"
  mSize :: size_t
  mRangeOffset :: size_t
  mRangeLength :: size_t
  mMetaData :: MetaData

definition new_MediaBuffer :: "(size_t \<Rightarrow> byte list) \<Rightarrow> size_t \<Rightarrow> MediaBuffer" where
  "new_MediaBuffer fresh n =
     \<lparr>mData = fresh n, mSize = n, mRangeOffset = 0, mRangeLength = n,
      mMetaData = new_MetaData\<rparr>"

definition set_range :: "MediaBuffer \<Rightarrow> size_t \<Rightarrow> size_t \<Rightarrow> MediaBuffer" where
  "set_range b off len = b\<lparr>mRangeOffset := off, mRangeLength := len\<rparr>"

text \<open>
  \<^verbatim>\<open>memset(buffer->data(), 0, n)\<close>: the first \<open>n\<close> bytes of the block become zero; the
  call is defined only when \<open>n\<close> is within the block.
\<close>

definition memset_zero :: "MediaBuffer \<Rightarrow> size_t \<Rightarrow> MediaBuffer option" where
  "memset_zero b n =
     (if unat n \<le> unat (mSize b)
      then Some (b\<lparr>mData := replicate (unat n) 0 @ drop (unat n) (mData b)\<rparr>)
      else None)"

text \<open>
  Modelled from the spec: \<^verbatim>\<open>MediaBufferGroup\<close> is declared outside the sources at hand.
  The pool holds the buffers that are free; \<open>acquire_buffer\<close> hands out one of them or
  reports exhaustion (\<open>None\<close>, a status other than \<open>OK\<close>).
\<close>

type_synonym MediaBufferGroup = "MediaBuffer list"

definition new_MediaBufferGroup :: MediaBufferGroup where
  "new_MediaBufferGroup = []"

definition add_buffer :: "MediaBufferGroup \<Rightarrow> MediaBuffer \<Rightarrow> MediaBufferGroup" where
  "add_buffer g b = g @ [b]"

definition acquire_buffer :: "MediaBufferGroup \<Rightarrow> (MediaBuffer \<times> MediaBufferGroup) option" where
  "acquire_buffer g = (case g of [] \<Rightarrow> None | b # bs \<Rightarrow> Some (b, bs))"

text \<open>
  Modelled from the spec: \<^verbatim>\<open>ReadOptions\<close> is declared outside the sources at hand; the
  options of a read carry an optional seek-to timestamp.
\<close>

record ReadOptions =
  getSeekTo :: "int64 option"

section \<open>The decode engine's configuration record\<close>

text \<open>
  The fields of \<^verbatim>\<open>tPVMP4AudioDecoderExternal\<close> that \<^verbatim>\<open>AACDecoder.cpp\<close> reads or writes.
  A pointer field is modelled by the bytes it addresses, \<open>None\<close> for \<^verbatim>\<open>NULL\<close>.
\<close>

datatype tPVMP4AudioDecoderOutputFormat =
  OUTPUTFORMAT_16PCM_GROUPED | OUTPUTFORMAT_16PCM_INTERLEAVED

record tPVMP4AudioDecoderExternal =
  pInputBuffer :: "byte list option"
  inputBufferCurrentLength :: int32
  inputBufferMaxLength :: int32
  outputFormat :: tPVMP4AudioDecoderOutputFormat
  pOutputBuffer :: "byte list option"
  pOutputBuffer_plus :: "byte list option"
  aacPlusUpsamplingFactor :: int32
  aacPlusEnabled :: bool
  repositionFlag :: bool
  remainderBits :: int32
  samplingRate :: int32
  desiredChannels :: int32
  inputBufferUsedLength :: int32
  frameLength :: int32

section \<open>The collaborators as parameters\<close>

text \<open>
  The upstream source, the ESDS parser, the allocator and the decode engine are outside
  \<^verbatim>\<open>AACDecoder.cpp\<close>; the stage is verified for every behaviour of theirs. \<open>'src\<close> is the
  state of the world behind \<^verbatim>\<open>mSource\<close> (releasing an input buffer hands it back
  there), \<open>'eng\<close> the contents of the engine's scratch block. The engine's calls return
  their status, the configuration record and the scratch block as they leave them;
  \<open>PVMP4AudioDecodeFrame\<close> returns as well the bytes it left behind \<open>pOutputBuffer\<close>.
  \<open>malloc\<close> and \<open>fresh_bytes\<close> give the contents of a fresh block: allocation is taken
  to succeed.
\<close>

record ('src, 'eng) collaborators =
  source_getFormat :: "'src \<Rightarrow> MetaData"
  source_start :: "'src \<Rightarrow> 'src"
  source_stop :: "'src \<Rightarrow> 'src"
  source_read :: "'src \<Rightarrow> ReadOptions option \<Rightarrow> status_t \<times> MediaBuffer option \<times> 'src"
  input_release :: "MediaBuffer \<Rightarrow> 'src \<Rightarrow> 'src"
  ESDS_InitCheck :: "byte list \<Rightarrow> status_t"
  ESDS_getCodecSpecificInfo :: "byte list \<Rightarrow> byte list"
  fresh_bytes :: "size_t \<Rightarrow> byte list"
  malloc :: "uint32 \<Rightarrow> 'eng"
  PVMP4AudioDecoderGetMemRequirements :: uint32
  PVMP4AudioDecoderInitLibrary ::
    "tPVMP4AudioDecoderExternal \<Rightarrow> 'eng \<Rightarrow> int32 \<times> tPVMP4AudioDecoderExternal \<times> 'eng"
  PVMP4AudioDecoderConfig ::
    "tPVMP4AudioDecoderExternal \<Rightarrow> 'eng \<Rightarrow> int32 \<times> tPVMP4AudioDecoderExternal \<times> 'eng"
  PVMP4AudioDecodeFrame ::
    "tPVMP4AudioDecoderExternal \<Rightarrow> 'eng
       \<Rightarrow> int32 \<times> tPVMP4AudioDecoderExternal \<times> 'eng \<times> byte list"

section \<open>The decoder stage\<close>

record ('src, 'eng) AACDecoder =
  mSource :: 'src
  mStarted :: bool
  mBufferGroup :: "MediaBufferGroup option"
  mConfig :: tPVMP4AudioDecoderExternal
  mDecoderBuf :: "'eng option"
  mAnchorTimeUs :: int64
  mNumSamplesOutput :: int64
  mInputBuffer :: "MediaBuffer option"

text \<open>
  The constructor. \<^verbatim>\<open>new tPVMP4AudioDecoderExternal\<close> leaves the record's fields
  indeterminate: their first values are a parameter.
\<close>

definition new_AACDecoder ::
  "'src \<Rightarrow> tPVMP4AudioDecoderExternal \<Rightarrow> ('src, 'eng) AACDecoder" where
  "new_AACDecoder source config =
     \<lparr>mSource = source, mStarted = False, mBufferGroup = None, mConfig = config,
      mDecoderBuf = None, mAnchorTimeUs = 0, mNumSamplesOutput = 0, mInputBuffer = None\<rparr>"

text \<open>
  \<^verbatim>\<open>if (mInputBuffer) { mInputBuffer->release(); mInputBuffer = NULL; }\<close>, lines 111 to
  114 of \<^verbatim>\<open>stop\<close> and 166 to 169 of \<^verbatim>\<open>read\<close>.
\<close>

definition discard_input ::
  "('src, 'eng) collaborators \<Rightarrow> ('src, 'eng) AACDecoder \<Rightarrow> ('src, 'eng) AACDecoder" where
  "discard_input env this =
     (case mInputBuffer this of
        None \<Rightarrow> this
      | Some input \<Rightarrow>
          this\<lparr>mSource := input_release env input (mSource this),
               mInputBuffer := None\<rparr>)"

subsection \<open>start\<close>

text \<open>Lines 99 to 105: the source is started and the stage becomes usable.\<close>

definition start_source ::
  "('src, 'eng) collaborators \<Rightarrow> ('src, 'eng) AACDecoder \<Rightarrow> ('src, 'eng) AACDecoder" where
  "start_source env this =
     this\<lparr>mSource := source_start env (mSource this),
          mAnchorTimeUs := 0, mNumSamplesOutput := 0, mStarted := True\<rparr>"

definition start ::
  "('src, 'eng) collaborators \<Rightarrow> ('src, 'eng) AACDecoder \<Rightarrow> MetaData option
     \<Rightarrow> fault + (status_t \<times> ('src, 'eng) AACDecoder)" where
  "start env this params =
     (if mStarted this then Inl CHECK_failed
      else
        let pool = add_buffer new_MediaBufferGroup
                      (new_MediaBuffer (fresh_bytes env) (2048 * 2));
            config = (mConfig this)
                       \<lparr>outputFormat := OUTPUTFORMAT_16PCM_INTERLEAVED,
                        aacPlusUpsamplingFactor := 0,
                        aacPlusEnabled := False,
                        desiredChannels := 2\<rparr>;
            memRequirements = PVMP4AudioDecoderGetMemRequirements env;
            block = malloc env memRequirements;
            (initErr, config, block) = PVMP4AudioDecoderInitLibrary env config block;
            this = this\<lparr>mBufferGroup := Some pool, mConfig := config,
                        mDecoderBuf := Some block\<rparr>
        in if initErr \<noteq> MP4AUDEC_SUCCESS then Inl CHECK_failed
           else
             (case findData (source_getFormat env (mSource this)) kKeyESDS of
                None \<Rightarrow> Inr (OK, start_source env this)
              | Some (type, esds) \<Rightarrow>
                  if ESDS_InitCheck env esds \<noteq> OK then Inl CHECK_failed
                  else
                    let codec_specific_data = ESDS_getCodecSpecificInfo env esds;
                        config = config
                          \<lparr>pInputBuffer := Some codec_specific_data,
                           inputBufferCurrentLength :=
                             of_nat (length codec_specific_data),
                           inputBufferMaxLength := 0,
                           inputBufferUsedLength := 0,
                           remainderBits := 0,
                           pOutputBuffer := None,
                           pOutputBuffer_plus := None,
                           repositionFlag := False\<rparr>;
                        (configErr, config, block) =
                           PVMP4AudioDecoderConfig env config block;
                        this = this\<lparr>mConfig := config, mDecoderBuf := Some block\<rparr>
                    in if configErr \<noteq> MP4AUDEC_SUCCESS
                       then Inr (ERROR_UNSUPPORTED, this)
                       else Inr (OK, start_source env this)))"

subsection \<open>stop\<close>

definition stop ::
  "('src, 'eng) collaborators \<Rightarrow> ('src, 'eng) AACDecoder
     \<Rightarrow> fault + (status_t \<times> ('src, 'eng) AACDecoder)" where
  "stop env this =
     (if \<not> mStarted this then Inl CHECK_failed
      else
        let this = discard_input env this;
            this = this\<lparr>mDecoderBuf := None\<rparr>;
            this = this\<lparr>mBufferGroup := None\<rparr>;
            this = this\<lparr>mSource := source_stop env (mSource this)\<rparr>;
            this = this\<lparr>mStarted := False\<rparr>
        in Inr (OK, this))"

subsection \<open>getFormat\<close>

definition getFormat ::
  "('src, 'eng) collaborators \<Rightarrow> ('src, 'eng) AACDecoder
     \<Rightarrow> fault + (MetaData \<times> ('src, 'eng) AACDecoder)" where
  "getFormat env this =
     (let srcFormat = source_getFormat env (mSource this)
      in (case findInt32 srcFormat kKeySampleRate of
            None \<Rightarrow> Inl CHECK_failed
          | Some sampleRate \<Rightarrow>
              let meta = new_MetaData;
                  meta = setCString meta kKeyMIMEType MEDIA_MIMETYPE_AUDIO_RAW;
                  meta = setInt32 meta kKeyChannelCount 2;
                  meta = setInt32 meta kKeySampleRate sampleRate;
                  meta = (case findInt64 srcFormat kKeyDuration of
                            Some durationUs \<Rightarrow> setInt64 meta kKeyDuration durationUs
                          | None \<Rightarrow> meta);
                  meta = setCString meta kKeyDecoderComponent ''AACDecoder''
              in Inr (meta, this)))"

subsection \<open>read\<close>

text \<open>
  \<^verbatim>\<open>options && options->getSeekTo(&seekTimeUs)\<close>: the seek target, when the caller passed
  options and they carry one.
\<close>

definition seek_request :: "ReadOptions option \<Rightarrow> int64 option" where
  "seek_request options = (case options of None \<Rightarrow> None | Some opts \<Rightarrow> getSeekTo opts)"

text \<open>
  Lines 160 to 172, seek handling: the value left in \<^verbatim>\<open>seekTimeUs\<close> and the stage after
  the block.
\<close>

definition read_seek ::
  "('src, 'eng) collaborators \<Rightarrow> ('src, 'eng) AACDecoder \<Rightarrow> ReadOptions option
     \<Rightarrow> fault + (int64 \<times> ('src, 'eng) AACDecoder)" where
  "read_seek env this options =
     (case seek_request options of
        Some seekTimeUs \<Rightarrow>
          if \<not> 0 \<le> sint seekTimeUs then Inl CHECK_failed
          else
            let this = this\<lparr>mNumSamplesOutput := 0\<rparr>;
                this = discard_input env this
            in Inr (seekTimeUs, this)
      | None \<Rightarrow> Inr (- 1, this))"

text \<open>
  Lines 175 to 188, the pull from upstream: \<open>Some err\<close> is the early return of line
  178, \<open>None\<close> goes on to the decode step.
\<close>

definition pull_upstream ::
  "('src, 'eng) collaborators \<Rightarrow> ('src, 'eng) AACDecoder \<Rightarrow> ReadOptions option \<Rightarrow> int64
     \<Rightarrow> fault + (status_t option \<times> ('src, 'eng) AACDecoder)" where
  "pull_upstream env this options seekTimeUs =
     (let (err, pulled, source) = source_read env (mSource this) options;
          this = this\<lparr>mSource := source, mInputBuffer := pulled\<rparr>
      in if err \<noteq> OK then Inr (Some err, this)
         else
           (case pulled of
              None \<Rightarrow> Inl Null_dereference
            | Some input \<Rightarrow>
                (case findInt64 (mMetaData input) kKeyTime of
                   Some timeUs \<Rightarrow>
                     Inr (None, this\<lparr>mAnchorTimeUs := timeUs,
                                     mNumSamplesOutput := 0\<rparr>)
                 | None \<Rightarrow>
                     if sint seekTimeUs < 0 then Inr (None, this)
                     else Inl CHECK_failed)))"

text \<open>Line 174: the pull happens only when no input is held.\<close>

definition read_input ::
  "('src, 'eng) collaborators \<Rightarrow> ('src, 'eng) AACDecoder \<Rightarrow> ReadOptions option \<Rightarrow> int64
     \<Rightarrow> fault + (status_t option \<times> ('src, 'eng) AACDecoder)" where
  "read_input env this options seekTimeUs =
     (case mInputBuffer this of
        None \<Rightarrow> pull_upstream env this options seekTimeUs
      | Some held \<Rightarrow> Inr (None, this))"

text \<open>Lines 194 to 204: the configuration record handed to the decode step.\<close>

definition feed_engine ::
  "tPVMP4AudioDecoderExternal \<Rightarrow> MediaBuffer \<Rightarrow> MediaBuffer \<Rightarrow> tPVMP4AudioDecoderExternal"
  where
  "feed_engine config input buffer =
     config
       \<lparr>pInputBuffer := Some (drop (unat (mRangeOffset input)) (mData input)),
        inputBufferCurrentLength := mRangeLength input,
        inputBufferMaxLength := 0,
        inputBufferUsedLength := 0,
        remainderBits := 0,
        pOutputBuffer := Some (mData buffer),
        pOutputBuffer_plus := None,
        repositionFlag := False\<rparr>"

text \<open>
  Lines 208 and 209:
  \<^verbatim>\<open>frameLength * sizeof(int16_t) * desiredChannels\<close>, computed in \<^verbatim>\<open>size_t\<close>.
\<close>

definition numOutBytes :: "tPVMP4AudioDecoderExternal \<Rightarrow> size_t" where
  "numOutBytes config = scast (frameLength config) * 2 * scast (desiredChannels config)"

text \<open>Lines 211 to 221: silence in place of a frame the engine rejected.\<close>

definition substitute_silence ::
  "('src, 'eng) collaborators \<Rightarrow> int32 \<Rightarrow> MediaBuffer \<Rightarrow> MediaBuffer
     \<Rightarrow> ('src, 'eng) AACDecoder \<Rightarrow> fault + (MediaBuffer \<times> ('src, 'eng) AACDecoder)" where
  "substitute_silence env decoderErr buffer input this =
     (if decoderErr \<noteq> MP4AUDEC_SUCCESS then
        (case memset_zero buffer (numOutBytes (mConfig this)) of
           None \<Rightarrow> Inl Write_past_end
         | Some buffer \<Rightarrow>
             Inr (buffer, this\<lparr>mSource := input_release env input (mSource this),
                               mInputBuffer := None\<rparr>))
      else Inr (buffer, this))"

text \<open>Lines 225 to 234: the window of the input still held moves past the bytes used.\<close>

definition advance_input ::
  "('src, 'eng) collaborators \<Rightarrow> ('src, 'eng) AACDecoder \<Rightarrow> ('src, 'eng) AACDecoder" where
  "advance_input env this =
     (case mInputBuffer this of
        None \<Rightarrow> this
      | Some input \<Rightarrow>
          let input = set_range input
                        (mRangeOffset input + scast (inputBufferUsedLength (mConfig this)))
                        (mRangeLength input - scast (inputBufferUsedLength (mConfig this)))
          in if mRangeLength input = 0
             then this\<lparr>mSource := input_release env input (mSource this),
                       mInputBuffer := None\<rparr>
             else this\<lparr>mInputBuffer := Some input\<rparr>)"

text \<open>
  Lines 236 to 241: the timestamp of the output and the running sample count. The
  product wraps in 64 bits; the divisor is the engine's \<^verbatim>\<open>samplingRate\<close>, widened.
\<close>

definition stamp_output ::
  "MediaBuffer \<Rightarrow> ('src, 'eng) AACDecoder \<Rightarrow> fault + (MediaBuffer \<times> ('src, 'eng) AACDecoder)"
  where
  "stamp_output buffer this =
     (if samplingRate (mConfig this) = 0 then Inl Division_by_zero
      else
        Inr (buffer\<lparr>mMetaData :=
                      setInt64 (mMetaData buffer) kKeyTime
                        (mAnchorTimeUs this
                           + div_int64 (mNumSamplesOutput this * 1000000)
                               (scast (samplingRate (mConfig this))))\<rparr>,
             this\<lparr>mNumSamplesOutput :=
                    mNumSamplesOutput this + scast (frameLength (mConfig this))\<rparr>))"

text \<open>Lines 191 to 245: acquire, decode, substitute, advance, stamp, return.\<close>

definition read_decode ::
  "('src, 'eng) collaborators \<Rightarrow> ('src, 'eng) AACDecoder
     \<Rightarrow> fault + (status_t \<times> MediaBuffer option \<times> ('src, 'eng) AACDecoder)" where
  "read_decode env this =
     (case mBufferGroup this of
        None \<Rightarrow> Inl Null_dereference
      | Some pool \<Rightarrow>
     (case acquire_buffer pool of
        None \<Rightarrow> Inl CHECK_failed
      | Some (buffer, pool) \<Rightarrow>
     (case mInputBuffer this of
        None \<Rightarrow> Inl Null_dereference
      | Some input \<Rightarrow>
     (case mDecoderBuf this of
        None \<Rightarrow> Inl Null_dereference
      | Some block \<Rightarrow>
          let (decoderErr, config, block, pcm) =
                PVMP4AudioDecodeFrame env (feed_engine (mConfig this) input buffer) block;
              buffer = buffer\<lparr>mData := pcm\<rparr>;
              this = this\<lparr>mBufferGroup := Some pool, mConfig := config,
                          mDecoderBuf := Some block\<rparr>
          in (case substitute_silence env decoderErr buffer input this of
                Inl f \<Rightarrow> Inl f
              | Inr (buffer, this) \<Rightarrow>
                  let buffer = set_range buffer 0 (numOutBytes (mConfig this));
                      this = advance_input env this
                  in (case stamp_output buffer this of
                        Inl f \<Rightarrow> Inl f
                      | Inr (buffer, this) \<Rightarrow> Inr (OK, Some buffer, this)))))))"

text \<open>
  \<open>read\<close> takes the value the caller's \<^verbatim>\<open>*out\<close> holds on entry and returns the one it
  holds on return, beside the status and the stage.
\<close>

definition read ::
  "('src, 'eng) collaborators \<Rightarrow> ('src, 'eng) AACDecoder \<Rightarrow> MediaBuffer option
     \<Rightarrow> ReadOptions option
     \<Rightarrow> fault + (status_t \<times> MediaBuffer option \<times> ('src, 'eng) AACDecoder)" where
  "read env this out options =
     (let out = None
      in (case read_seek env this options of
            Inl f \<Rightarrow> Inl f
          | Inr (seekTimeUs, this) \<Rightarrow>
              (case read_input env this options seekTimeUs of
                 Inl f \<Rightarrow> Inl f
               | Inr (Some err, this) \<Rightarrow> Inr (err, out, this)
               | Inr (None, this) \<Rightarrow>
                   (case read_decode env this of
                      Inl f \<Rightarrow> Inl f
                    | Inr (err, buffer, this) \<Rightarrow> Inr (err, buffer, this)))))"

section \<open>Properties as predicates\<close>

text \<open>The invariant of the data model: engine state is held exactly while started.\<close>

definition engineState_iff_started :: "('src, 'eng) AACDecoder \<Rightarrow> bool" where
  "engineState_iff_started this = ((mDecoderBuf this \<noteq> None) = mStarted this)"

text \<open>The capacities of the buffers in the stage's pool, when it has a pool.\<close>

definition pool_capacities :: "('src, 'eng) AACDecoder \<Rightarrow> size_t list option" where
  "pool_capacities this = map_option (map mSize) (mBufferGroup this)"

section \<open>A scripted source and a toy engine\<close>

text \<open>
  Concrete collaborators on which the model runs: a source that plays back a list of
  read results and keeps the buffers released to it, and an engine that rejects an
  empty codec configuration and any unit whose window starts with a zero byte, and
  otherwise produces \<open>frames\<close> frames at 44100 Hz from at most six bytes.
\<close>

record scripted_source =
  src_units :: "(status_t \<times> MediaBuffer option) list"
  src_returned :: "MediaBuffer list"
  src_running :: bool

definition ERROR_END_OF_STREAM :: status_t where
  "ERROR_END_OF_STREAM = - 1011"

definition MP4AUDEC_INVALID_FRAME :: int32 where
  "MP4AUDEC_INVALID_FRAME = 10"

definition scripted_read ::
  "scripted_source \<Rightarrow> ReadOptions option
     \<Rightarrow> status_t \<times> MediaBuffer option \<times> scripted_source" where
  "scripted_read src options =
     (case src_units src of
        [] \<Rightarrow> (ERROR_END_OF_STREAM, None, src)
      | (err, unit) # rest \<Rightarrow> (err, unit, src\<lparr>src_units := rest\<rparr>))"

definition toy_configure ::
  "tPVMP4AudioDecoderExternal \<Rightarrow> nat \<Rightarrow> int32 \<times> tPVMP4AudioDecoderExternal \<times> nat" where
  "toy_configure config n =
     (case pInputBuffer config of
        Some (b # bs) \<Rightarrow> (MP4AUDEC_SUCCESS, config\<lparr>samplingRate := 44100\<rparr>, n)
      | _ \<Rightarrow> (MP4AUDEC_INVALID_FRAME, config, n))"

definition toy_decode ::
  "int32 \<Rightarrow> tPVMP4AudioDecoderExternal \<Rightarrow> nat
     \<Rightarrow> int32 \<times> tPVMP4AudioDecoderExternal \<times> nat \<times> byte list" where
  "toy_decode frames config n =
     (let pcm = (case pOutputBuffer config of None \<Rightarrow> [] | Some bytes \<Rightarrow> bytes)
      in (case pInputBuffer config of
            Some (b # bs) \<Rightarrow>
              if b = 0 then (MP4AUDEC_INVALID_FRAME, config, n, pcm)
              else (MP4AUDEC_SUCCESS,
                    config\<lparr>frameLength := frames, samplingRate := 44100,
                           inputBufferUsedLength :=
                             min 6 (inputBufferCurrentLength config)\<rparr>,
                    Suc n, map (\<lambda>b. 1) pcm)
          | _ \<Rightarrow> (MP4AUDEC_INVALID_FRAME, config, n, pcm)))"

text \<open>
  An engine that returns the given status, reports the given sampling rate and frame
  length and uses every byte it is offered, leaving the output bytes as they are.
\<close>

definition reporting_decode ::
  "int32 \<Rightarrow> int32 \<Rightarrow> int32 \<Rightarrow> tPVMP4AudioDecoderExternal \<Rightarrow> nat
     \<Rightarrow> int32 \<times> tPVMP4AudioDecoderExternal \<times> nat \<times> byte list" where
  "reporting_decode status rate frames config n =
     (status,
      config\<lparr>frameLength := frames, samplingRate := rate,
             inputBufferUsedLength := inputBufferCurrentLength config\<rparr>,
      Suc n,
      (case pOutputBuffer config of None \<Rightarrow> [] | Some bytes \<Rightarrow> bytes))"

definition toy_env :: "MetaData \<Rightarrow> int32 \<Rightarrow> (scripted_source, nat) collaborators" where
  "toy_env format frames =
     \<lparr>source_getFormat = (\<lambda>src. format),
      source_start = (\<lambda>src. src\<lparr>src_running := True\<rparr>),
      source_stop = (\<lambda>src. src\<lparr>src_running := False\<rparr>),
      source_read = scripted_read,
      input_release = (\<lambda>b src. src\<lparr>src_returned := src_returned src @ [b]\<rparr>),
      ESDS_InitCheck = (\<lambda>esds. OK),
      ESDS_getCodecSpecificInfo = (\<lambda>esds. esds),
      fresh_bytes = (\<lambda>n. replicate (unat n) 0),
      malloc = (\<lambda>n. 0),
      PVMP4AudioDecoderGetMemRequirements = 64,
      PVMP4AudioDecoderInitLibrary = (\<lambda>config n. (MP4AUDEC_SUCCESS, config, n)),
      PVMP4AudioDecoderConfig = toy_configure,
      PVMP4AudioDecodeFrame = toy_decode frames\<rparr>"

definition zero_config :: tPVMP4AudioDecoderExternal where
  "zero_config =
     \<lparr>pInputBuffer = None, inputBufferCurrentLength = 0, inputBufferMaxLength = 0,
      outputFormat = OUTPUTFORMAT_16PCM_GROUPED, pOutputBuffer = None,
      pOutputBuffer_plus = None, aacPlusUpsamplingFactor = 0, aacPlusEnabled = False,
      repositionFlag = False, remainderBits = 0, samplingRate = 0, desiredChannels = 0,
      inputBufferUsedLength = 0, frameLength = 0\<rparr>"

text \<open>A compressed unit of the source, with or without a timestamp.\<close>

definition toy_unit :: "int64 option \<Rightarrow> byte list \<Rightarrow> MediaBuffer" where
  "toy_unit time bytes =
     \<lparr>mData = bytes, mSize = of_nat (length bytes), mRangeOffset = 0,
      mRangeLength = of_nat (length bytes),
      mMetaData = (case time of None \<Rightarrow> Map.empty
                   | Some t \<Rightarrow> setInt64 new_MetaData kKeyTime t)\<rparr>"

definition corrupt_unit :: MediaBuffer where
  "corrupt_unit = toy_unit None [0, 9, 9]"

definition ten_byte_unit :: MediaBuffer where
  "ten_byte_unit = toy_unit (Some 5000) [1, 2, 3, 4, 5, 6, 7, 8, 9, 10]"

definition toy_source :: "(status_t \<times> MediaBuffer option) list \<Rightarrow> scripted_source" where
  "toy_source results = \<lparr>src_units = results, src_returned = [], src_running = False\<rparr>"

text \<open>Source formats: plain 44100 Hz mono, and one with an empty codec configuration.\<close>

definition plain_format :: MetaData where
  "plain_format =
     setInt32 (setInt32 new_MetaData kKeySampleRate 44100) kKeyChannelCount 1"

definition empty_esds_format :: MetaData where
  "empty_esds_format = plain_format(kKeyESDS \<mapsto> TYPE_DATA 0 [])"

text \<open>
  The stage as a successful \<open>start\<close> leaves it on a source without codec
  configuration, and as the rejected configuration of \<open>empty_esds_format\<close> leaves it.
\<close>

definition started_stage ::
  "(status_t \<times> MediaBuffer option) list \<Rightarrow> (scripted_source, nat) AACDecoder" where
  "started_stage results =
     \<lparr>mSource = (toy_source results)\<lparr>src_running := True\<rparr>,
      mStarted = True,
      mBufferGroup = Some [new_MediaBuffer (\<lambda>n. replicate (unat n) 0) 4096],
      mConfig = zero_config\<lparr>outputFormat := OUTPUTFORMAT_16PCM_INTERLEAVED,
                            desiredChannels := 2\<rparr>,
      mDecoderBuf = Some 0,
      mAnchorTimeUs = 0,
      mNumSamplesOutput = 0,
      mInputBuffer = None\<rparr>"

definition rejected_stage :: "(scripted_source, nat) AACDecoder" where
  "rejected_stage =
     \<lparr>mSource = toy_source [],
      mStarted = False,
      mBufferGroup = Some [new_MediaBuffer (\<lambda>n. replicate (unat n) 0) 4096],
      mConfig = zero_config\<lparr>outputFormat := OUTPUTFORMAT_16PCM_INTERLEAVED,
                            desiredChannels := 2, pInputBuffer := Some []\<rparr>,
      mDecoderBuf = Some 0,
      mAnchorTimeUs = 0,
      mNumSamplesOutput = 0,
      mInputBuffer = None\<rparr>"

text \<open>
  A started stage in mid-stream: an eight-byte output buffer in the pool, the engine
  configuration as the last two-frame decode left it, \<open>samples\<close> samples emitted since
  the anchor.
\<close>

definition running_stage ::
  "int64 \<Rightarrow> MediaBuffer option \<Rightarrow> (status_t \<times> MediaBuffer option) list
     \<Rightarrow> (scripted_source, nat) AACDecoder" where
  "running_stage samples held results =
     \<lparr>mSource = (toy_source results)\<lparr>src_running := True\<rparr>,
      mStarted = True,
      mBufferGroup = Some [new_MediaBuffer (\<lambda>n. replicate (unat n) 7) 8],
      mConfig = zero_config\<lparr>outputFormat := OUTPUTFORMAT_16PCM_INTERLEAVED,
                            desiredChannels := 2, samplingRate := 44100,
                            frameLength := 2\<rparr>,
      mDecoderBuf = Some 1,
      mAnchorTimeUs = 0,
      mNumSamplesOutput = samples,
      mInputBuffer = held\<rparr>"

section \<open>Unfolding rules and shared lemmas\<close>

lemmas toy_defs =
  toy_env_def toy_decode_def toy_configure_def toy_source_def toy_unit_def scripted_read_def
  zero_config_def plain_format_def empty_esds_format_def running_stage_def started_stage_def
  rejected_stage_def corrupt_unit_def ten_byte_unit_def reporting_decode_def
  MP4AUDEC_SUCCESS_def
  MP4AUDEC_INVALID_FRAME_def OK_def ERROR_UNSUPPORTED_def ERROR_END_OF_STREAM_def

lemmas meta_defs =
  new_MetaData_def setCString_def setInt32_def setInt64_def findCString_def findInt32_def
  findInt64_def findData_def

lemmas buffer_defs =
  new_MediaBuffer_def set_range_def memset_zero_def new_MediaBufferGroup_def add_buffer_def
  acquire_buffer_def

lemmas stage_defs =
  new_AACDecoder_def discard_input_def start_source_def start_def stop_def getFormat_def
  seek_request_def read_seek_def pull_upstream_def read_input_def feed_engine_def
  numOutBytes_def substitute_silence_def advance_input_def stamp_output_def read_decode_def
  read_def

lemma read_reaches_decode:
  assumes "read_seek env this options = Inr (seekTimeUs, sought)"
    and "read_input env sought options seekTimeUs = Inr (None, fed)"
  shows "read env this out options = read_decode env fed"
  using assms by (simp add: read_def split: sum.splits prod.splits)

lemma read_returns_buffer:
  assumes "read env this out options = Inr (err, Some buffer, this')"
  shows "\<exists>seekTimeUs sought fed.
           read_seek env this options = Inr (seekTimeUs, sought)
           \<and> read_input env sought options seekTimeUs = Inr (None, fed)
           \<and> read_decode env fed = Inr (err, Some buffer, this')"
  using assms
  by (auto simp: read_def split: sum.splits prod.splits option.splits)

lemma substitute_silence_keeps:
  assumes "substitute_silence env decoderErr buffer input this = Inr (buffer', this')"
  shows "mConfig this' = mConfig this \<and> mAnchorTimeUs this' = mAnchorTimeUs this
         \<and> mNumSamplesOutput this' = mNumSamplesOutput this
         \<and> mMetaData buffer' = mMetaData buffer"
  using assms
  by (auto simp: substitute_silence_def memset_zero_def split: if_splits option.splits)

lemma advance_input_keeps:
  "mConfig (advance_input env this) = mConfig this
   \<and> mAnchorTimeUs (advance_input env this) = mAnchorTimeUs this
   \<and> mNumSamplesOutput (advance_input env this) = mNumSamplesOutput this"
  by (simp add: advance_input_def Let_def split: option.splits)

lemma stamp_output_result:
  assumes "stamp_output buffer this = Inr (buffer', this')"
  shows "findInt64 (mMetaData buffer') kKeyTime
           = Some (mAnchorTimeUs this
                    + div_int64 (mNumSamplesOutput this * 1000000)
                        (scast (samplingRate (mConfig this))))
         \<and> mNumSamplesOutput this'
             = mNumSamplesOutput this + scast (frameLength (mConfig this))
         \<and> mConfig this' = mConfig this \<and> mAnchorTimeUs this' = mAnchorTimeUs this"
  using assms
  by (auto simp: stamp_output_def findInt64_def setInt64_def split: if_splits)

lemma read_decode_timestamp:
  assumes "read_decode env fed = Inr (err, Some buffer, this')"
  shows "\<exists>pool acquired pool' input block decoderErr config block' pcm.
           mBufferGroup fed = Some pool
           \<and> acquire_buffer pool = Some (acquired, pool')
           \<and> mInputBuffer fed = Some input
           \<and> mDecoderBuf fed = Some block
           \<and> PVMP4AudioDecodeFrame env (feed_engine (mConfig fed) input acquired) block
               = (decoderErr, config, block', pcm)
           \<and> findInt64 (mMetaData buffer) kKeyTime
               = Some (mAnchorTimeUs fed
                        + div_int64 (mNumSamplesOutput fed * 1000000)
                            (scast (samplingRate config)))
           \<and> mNumSamplesOutput this'
               = mNumSamplesOutput fed + scast (frameLength config)
           \<and> mAnchorTimeUs this' = mAnchorTimeUs fed
           \<and> mConfig this' = config"
proof -
  from assms obtain pool acquired pool' input block decoderErr config block' pcm
      silent quiet
    where pool: "mBufferGroup fed = Some pool"
      and acquire: "acquire_buffer pool = Some (acquired, pool')"
      and held: "mInputBuffer fed = Some input"
      and block: "mDecoderBuf fed = Some block"
      and step: "PVMP4AudioDecodeFrame env (feed_engine (mConfig fed) input acquired) block
                   = (decoderErr, config, block', pcm)"
      and sil: "substitute_silence env decoderErr (acquired\<lparr>mData := pcm\<rparr>) input
                  (fed\<lparr>mBufferGroup := Some pool', mConfig := config,
                       mDecoderBuf := Some block'\<rparr>) = Inr (silent, quiet)"
      and st: "stamp_output (set_range silent 0 (numOutBytes (mConfig quiet)))
                 (advance_input env quiet) = Inr (buffer, this')"
    by (auto simp: read_decode_def Let_def split: option.splits prod.splits sum.splits)
  from substitute_silence_keeps [OF sil] advance_input_keeps [of env quiet]
    stamp_output_result [OF st]
  have "findInt64 (mMetaData buffer) kKeyTime
               = Some (mAnchorTimeUs fed
                        + div_int64 (mNumSamplesOutput fed * 1000000)
                            (scast (samplingRate config)))
           \<and> mNumSamplesOutput this'
               = mNumSamplesOutput fed + scast (frameLength config)
           \<and> mAnchorTimeUs this' = mAnchorTimeUs fed
           \<and> mConfig this' = config"
    by simp
  with pool acquire held block step show ?thesis by blast
qed

section \<open>Lifecycle\<close>

text \<open>
  Construction, a successful \<open>start\<close>, \<open>stop\<close>, \<open>getFormat\<close> and \<open>read\<close> keep the
  engine state non-null exactly while the stage is started.
\<close>

lemma new_AACDecoder_invariant: "engineState_iff_started (new_AACDecoder source config)"
  by (simp add: engineState_iff_started_def new_AACDecoder_def)

lemma start_OK_invariant:
  assumes "start env this params = Inr (OK, this')"
  shows "engineState_iff_started this'"
  using assms
  by (auto simp: start_def Let_def start_source_def engineState_iff_started_def
        ERROR_UNSUPPORTED_def OK_def
      split: if_splits prod.splits option.splits)

lemma stop_invariant:
  assumes "stop env this = Inr (err, this')"
  shows "engineState_iff_started this'"
  using assms
  by (auto simp: stop_def Let_def engineState_iff_started_def split: if_splits)

lemma getFormat_invariant:
  assumes "getFormat env this = Inr (meta, this')" and "engineState_iff_started this"
  shows "engineState_iff_started this'"
  using assms
  by (auto simp: getFormat_def Let_def split: option.splits)

lemma read_seek_invariant:
  assumes "read_seek env this options = Inr (seekTimeUs, sought)"
  shows "mDecoderBuf sought = mDecoderBuf this \<and> mStarted sought = mStarted this"
  using assms
  by (auto simp: read_seek_def discard_input_def Let_def split: option.splits if_splits)

lemma read_input_invariant:
  assumes "read_input env sought options seekTimeUs = Inr (r, fed)"
  shows "mDecoderBuf fed = mDecoderBuf sought \<and> mStarted fed = mStarted sought"
  using assms
  by (auto simp: read_input_def pull_upstream_def Let_def
           split: option.splits if_splits prod.splits)

lemma read_decode_invariant:
  assumes "read_decode env fed = Inr (err, out', this')"
  shows "mDecoderBuf fed \<noteq> None \<and> mDecoderBuf this' \<noteq> None
         \<and> mStarted this' = mStarted fed"
proof -
  from assms obtain pool' buffer0 input config block' pcm decoderErr silent quiet
    where sil: "substitute_silence env decoderErr (buffer0\<lparr>mData := pcm\<rparr>) input
                  (fed\<lparr>mBufferGroup := Some pool', mConfig := config,
                       mDecoderBuf := Some block'\<rparr>) = Inr (silent, quiet)"
      and st: "stamp_output (set_range silent 0 (numOutBytes (mConfig quiet)))
                 (advance_input env quiet) = Inr (the out', this')"
      and blk: "mDecoderBuf fed \<noteq> None"
    by (auto simp: read_decode_def Let_def split: option.splits prod.splits sum.splits)
  from sil have "mDecoderBuf quiet = Some block' \<and> mStarted quiet = mStarted fed"
    by (auto simp: substitute_silence_def split: if_splits option.splits)
  moreover have "mDecoderBuf (advance_input env quiet) = mDecoderBuf quiet
                 \<and> mStarted (advance_input env quiet) = mStarted quiet"
    by (simp add: advance_input_def Let_def split: option.splits)
  moreover from st have "mDecoderBuf this' = mDecoderBuf (advance_input env quiet)
                 \<and> mStarted this' = mStarted (advance_input env quiet)"
    by (auto simp: stamp_output_def split: if_splits)
  ultimately show ?thesis using blk by simp
qed

lemma read_invariant:
  assumes "read env this out options = Inr (err, out', this')"
    and "engineState_iff_started this"
  shows "engineState_iff_started this'"
proof -
  from assms(1) obtain seekTimeUs sought r fed
    where seek: "read_seek env this options = Inr (seekTimeUs, sought)"
      and pull: "read_input env sought options seekTimeUs = Inr (r, fed)"
      and rest: "(r \<noteq> None \<and> this' = fed) \<or> read_decode env fed = Inr (err, out', this')"
    by (auto simp: read_def split: sum.splits prod.splits option.splits)
  from read_seek_invariant [OF seek] read_input_invariant [OF pull] assms(2)
  have fed: "engineState_iff_started fed"
    by (simp add: engineState_iff_started_def)
  from rest show ?thesis
  proof
    assume "r \<noteq> None \<and> this' = fed"
    with fed show ?thesis by simp
  next
    assume "read_decode env fed = Inr (err, out', this')"
    from read_decode_invariant [OF this] fed show ?thesis
      by (simp add: engineState_iff_started_def)
  qed
qed


text \<open>
  C1. The data model asks that the engine state be non-null exactly while the stage is
  started, after every operation, the rejected \<open>start\<close> included. \<open>stop\<close> frees the
  block and clears the pointer, but the early return of line 95 does neither: every
  \<open>start\<close> that returns an error returns "unsupported format", leaves \<open>mStarted\<close>
  false and leaves the block allocated at line 65 behind \<open>mDecoderBuf\<close>, so the
  invariant fails there.
\<close>

theorem start_error_leaves_engine_state:
  assumes "start env this params = Inr (err, this')" and "err \<noteq> OK"
  shows "err = ERROR_UNSUPPORTED \<and> \<not> mStarted this' \<and> mDecoderBuf this' \<noteq> None
         \<and> \<not> engineState_iff_started this'"
  using assms
  by (auto simp: start_def Let_def start_source_def engineState_iff_started_def
           split: if_splits prod.splits option.splits)

text \<open>
  A fresh stage on a source whose codec configuration the engine rejects: \<open>start\<close>
  returns the error and the stage is \<open>rejected_stage\<close>.
\<close>

theorem start_error_leaves_engine_state_witness:
  "start (toy_env empty_esds_format 2) (new_AACDecoder (toy_source []) zero_config) None
     = Inr (ERROR_UNSUPPORTED, rejected_stage)
   \<and> ERROR_UNSUPPORTED \<noteq> OK
   \<and> \<not> mStarted rejected_stage \<and> mDecoderBuf rejected_stage \<noteq> None
   \<and> \<not> engineState_iff_started rejected_stage"
proof -
  have run: "start (toy_env empty_esds_format 2)
               (new_AACDecoder (toy_source []) zero_config) None
             = Inr (ERROR_UNSUPPORTED, rejected_stage)"
    by (simp add: stage_defs toy_defs meta_defs buffer_defs)
  have ne: "ERROR_UNSUPPORTED \<noteq> OK"
    by (simp add: ERROR_UNSUPPORTED_def OK_def)
  from start_error_leaves_engine_state [OF run ne] run ne show ?thesis by simp
qed

text \<open>
  C2, as amended. Every \<open>start\<close> that returns has given the stage a pool of exactly
  one output buffer, of capacity \<^verbatim>\<open>2048 * 2\<close>, that is 4096 bytes.
\<close>

theorem start_pool_capacity:
  assumes "start env this params = Inr (err, this')"
  shows "pool_capacities this' = Some [4096]"
  using assms
  by (auto simp: start_def Let_def start_source_def pool_capacities_def buffer_defs
           split: if_splits prod.splits option.splits)

theorem start_pool_capacity_witness:
  "start (toy_env plain_format 2) (new_AACDecoder (toy_source []) zero_config) None
     = Inr (OK, started_stage [])
   \<and> pool_capacities (started_stage []) = Some [4096]"
proof -
  have run: "start (toy_env plain_format 2)
               (new_AACDecoder (toy_source []) zero_config) None
             = Inr (OK, started_stage [])"
    by (simp add: stage_defs toy_defs meta_defs buffer_defs)
  from start_pool_capacity [OF run] run show ?thesis by simp
qed

text \<open>
  C2 as stated fails: after a successful \<open>start\<close> the capacity of the one buffer is
  not 8192 bytes.
\<close>

theorem start_pool_capacity_not_8192:
  "start (toy_env plain_format 2) (new_AACDecoder (toy_source []) zero_config) None
     = Inr (OK, started_stage [])
   \<and> pool_capacities (started_stage []) \<noteq> Some [8192]"
  by (simp add: stage_defs toy_defs meta_defs buffer_defs pool_capacities_def)

section \<open>Format\<close>

text \<open>
  C9. On a source whose format carries a sample rate, \<open>getFormat\<close> returns a
  descriptor with MIME type raw PCM audio, channel count 2 whatever the source says of
  its channels, the source's sample rate, the source's duration exactly when it has
  one, and the decoder-component tag; the stage is returned as it was.
\<close>

theorem getFormat_descriptor:
  assumes "findInt32 (source_getFormat env (mSource this)) kKeySampleRate = Some sampleRate"
  shows "\<exists>meta. getFormat env this = Inr (meta, this)
           \<and> findCString meta kKeyMIMEType = Some MEDIA_MIMETYPE_AUDIO_RAW
           \<and> findInt32 meta kKeyChannelCount = Some 2
           \<and> findInt32 meta kKeySampleRate = Some sampleRate
           \<and> findInt64 meta kKeyDuration
               = findInt64 (source_getFormat env (mSource this)) kKeyDuration
           \<and> findCString meta kKeyDecoderComponent = Some ''AACDecoder''"
  using assms
  by (auto simp: getFormat_def Let_def meta_defs split: option.splits item.splits)

text \<open>A mono source with a duration: the descriptor says two channels.\<close>

theorem getFormat_descriptor_witness:
  "findInt32 (plain_format(kKeyDuration \<mapsto> TYPE_INT64 3000000)) kKeyChannelCount = Some 1
   \<and> (\<exists>meta.
        getFormat (toy_env (plain_format(kKeyDuration \<mapsto> TYPE_INT64 3000000)) 2)
          (running_stage 0 None []) = Inr (meta, running_stage 0 None [])
        \<and> findCString meta kKeyMIMEType = Some ''audio/raw''
        \<and> findInt32 meta kKeyChannelCount = Some 2
        \<and> findInt32 meta kKeySampleRate = Some 44100
        \<and> findInt64 meta kKeyDuration = Some 3000000
        \<and> findCString meta kKeyDecoderComponent = Some ''AACDecoder'')"
proof -
  let ?format = "plain_format(kKeyDuration \<mapsto> TYPE_INT64 3000000)"
  have rate: "findInt32 (source_getFormat (toy_env ?format 2)
                           (mSource (running_stage 0 None []))) kKeySampleRate
              = Some 44100"
    by (simp add: toy_defs meta_defs)
  have mono: "findInt32 ?format kKeyChannelCount = Some 1"
    by (simp add: toy_defs meta_defs)
  have duration: "findInt64 (source_getFormat (toy_env ?format 2)
                           (mSource (running_stage 0 None []))) kKeyDuration
              = Some 3000000"
    by (simp add: toy_defs meta_defs)
  from getFormat_descriptor [OF rate] mono duration show ?thesis
    by (simp add: MEDIA_MIMETYPE_AUDIO_RAW_def)
qed

section \<open>Reading\<close>

text \<open>
  C10. \<open>read\<close> clears the caller's out-parameter first: a call that returns a status
  other than \<open>OK\<close> returns a null out-parameter, and returns the same whatever the
  out-parameter held on entry.
\<close>

theorem read_error_out_null:
  assumes "read env this out options = Inr (err, out', this')" and "err \<noteq> OK"
  shows "out' = None \<and> read env this stale options = Inr (err, None, this')"
  using assms
  by (auto simp: read_def read_decode_def Let_def
           split: sum.splits prod.splits option.splits)

text \<open>End of stream, entered with two different stale out-parameters.\<close>

theorem read_error_out_null_witness:
  "read (toy_env plain_format 2) (running_stage 2 None []) (Some corrupt_unit) None
     = Inr (ERROR_END_OF_STREAM, None, running_stage 2 None [])
   \<and> ERROR_END_OF_STREAM \<noteq> OK
   \<and> read (toy_env plain_format 2) (running_stage 2 None []) (Some ten_byte_unit) None
     = Inr (ERROR_END_OF_STREAM, None, running_stage 2 None [])"
proof -
  have run: "read (toy_env plain_format 2) (running_stage 2 None []) (Some corrupt_unit) None
     = Inr (ERROR_END_OF_STREAM, None, running_stage 2 None [])"
    by (simp add: stage_defs toy_defs)
  have ne: "ERROR_END_OF_STREAM \<noteq> OK"
    by (simp add: toy_defs)
  from read_error_out_null [OF run ne, of "Some ten_byte_unit"] run ne
  show ?thesis by simp
qed

text \<open>
  C7. When the options carry a seek target \<open>t\<close>: for \<open>t\<close> negative the call dies on
  its \<^verbatim>\<open>CHECK\<close>; otherwise the seek block leaves the sample count at zero and no input
  held, the held buffer released to the source, the pull from upstream that follows
  runs on that stage, and the whole call is the call on that stage.
\<close>

theorem read_seek_resets:
  assumes "seek_request options = Some seekTimeUs"
  shows "if 0 \<le> sint seekTimeUs
         then read_seek env this options
                = Inr (seekTimeUs, discard_input env (this\<lparr>mNumSamplesOutput := 0\<rparr>))
              \<and> mNumSamplesOutput (discard_input env (this\<lparr>mNumSamplesOutput := 0\<rparr>)) = 0
              \<and> mInputBuffer (discard_input env (this\<lparr>mNumSamplesOutput := 0\<rparr>)) = None
              \<and> mSource (discard_input env (this\<lparr>mNumSamplesOutput := 0\<rparr>))
                  = (case mInputBuffer this of None \<Rightarrow> mSource this
                     | Some input \<Rightarrow> input_release env input (mSource this))
              \<and> read_input env (discard_input env (this\<lparr>mNumSamplesOutput := 0\<rparr>))
                    options seekTimeUs
                  = pull_upstream env (discard_input env (this\<lparr>mNumSamplesOutput := 0\<rparr>))
                      options seekTimeUs
              \<and> read env this out options
                  = read env (discard_input env (this\<lparr>mNumSamplesOutput := 0\<rparr>))
                      out options
         else read env this out options = Inl CHECK_failed"
proof (cases "0 \<le> sint seekTimeUs")
  case False
  with assms show ?thesis by (simp add: read_def read_seek_def)
next
  case True
  let ?reset = "discard_input env (this\<lparr>mNumSamplesOutput := 0\<rparr>)"
  have none: "mInputBuffer ?reset = None" and zero: "mNumSamplesOutput ?reset = 0"
    by (simp_all add: discard_input_def split: option.splits)
  have first: "read_seek env this options = Inr (seekTimeUs, ?reset)"
    using assms True by (simp add: read_seek_def)
  have "discard_input env (?reset\<lparr>mNumSamplesOutput := 0\<rparr>) = ?reset"
    by (simp add: discard_input_def split: option.splits)
  then have again: "read_seek env ?reset options = Inr (seekTimeUs, ?reset)"
    using assms True by (simp add: read_seek_def)
  have same: "read env this out options = read env ?reset out options"
    by (simp add: read_def first again)
  have src: "mSource ?reset
               = (case mInputBuffer this of None \<Rightarrow> mSource this
                  | Some input \<Rightarrow> input_release env input (mSource this))"
    by (simp add: discard_input_def split: option.splits)
  have pull: "read_input env ?reset options seekTimeUs
                = pull_upstream env ?reset options seekTimeUs"
    using none by (simp add: read_input_def)
  from True first none zero src pull same show ?thesis by simp
qed

text \<open>
  A stage holding a unit and seven samples into its run: a seek to 1000 releases the
  unit before the source, now at its end, is read; a seek to -5 aborts.
\<close>

theorem read_seek_resets_witness:
  "read_seek (toy_env plain_format 2) (running_stage 7 (Some ten_byte_unit) [])
     (Some \<lparr>getSeekTo = Some 1000\<rparr>)
     = Inr (1000,
            (running_stage 0 None [])
              \<lparr>mSource := (toy_source [])
                   \<lparr>src_returned := [ten_byte_unit], src_running := True\<rparr>\<rparr>)
   \<and> read (toy_env plain_format 2) (running_stage 7 (Some ten_byte_unit) []) None
       (Some \<lparr>getSeekTo = Some 1000\<rparr>)
     = Inr (ERROR_END_OF_STREAM, None,
            (running_stage 0 None [])
              \<lparr>mSource := (toy_source [])
                   \<lparr>src_returned := [ten_byte_unit], src_running := True\<rparr>\<rparr>)
   \<and> read (toy_env plain_format 2) (running_stage 7 (Some ten_byte_unit) []) None
       (Some \<lparr>getSeekTo = Some (- 5)\<rparr>)
     = Inl CHECK_failed"
proof -
  let ?env = "toy_env plain_format 2"
  let ?stage = "running_stage 7 (Some ten_byte_unit) []"
  let ?reset = "(running_stage 0 None [])
              \<lparr>mSource := (toy_source [])
                   \<lparr>src_returned := [ten_byte_unit], src_running := True\<rparr>\<rparr>"
  have forward: "seek_request (Some \<lparr>getSeekTo = Some 1000\<rparr>) = Some 1000"
    and backward: "seek_request (Some \<lparr>getSeekTo = Some (- 5)\<rparr>) = Some (- 5)"
    by (simp_all add: seek_request_def)
  have reset: "discard_input ?env (?stage\<lparr>mNumSamplesOutput := 0\<rparr>) = ?reset"
    by (simp add: discard_input_def toy_defs)
  have eos: "read ?env ?reset None (Some \<lparr>getSeekTo = Some 1000\<rparr>)
               = Inr (ERROR_END_OF_STREAM, None, ?reset)"
    by (simp add: stage_defs toy_defs)
  from read_seek_resets [OF forward, of ?env ?stage None]
    read_seek_resets [OF backward, of ?env ?stage None] reset eos
  show ?thesis by simp
qed

text \<open>
  C5. When no input is held, the seek block lets the call through and the source's
  read returns a status other than \<open>OK\<close>, \<open>read\<close> returns that status with a null
  buffer; pool, engine state and configuration are as before, and the outcome is the
  same for every decode engine and for every pool, so neither is used.
\<close>

theorem read_upstream_error:
  assumes absent: "mInputBuffer this = None"
    and seek: "read_seek env this options = Inr (seekTimeUs, sought)"
    and upstream: "source_read env (mSource this) options = (err, pulled, source)"
    and failed: "err \<noteq> OK"
  shows "read env this out options
           = Inr (err, None, sought\<lparr>mSource := source, mInputBuffer := pulled\<rparr>)
         \<and> mBufferGroup sought = mBufferGroup this
         \<and> mDecoderBuf sought = mDecoderBuf this
         \<and> mConfig sought = mConfig this
         \<and> (\<forall>decode. read (env\<lparr>PVMP4AudioDecodeFrame := decode\<rparr>) this out options
               = Inr (err, None, sought\<lparr>mSource := source, mInputBuffer := pulled\<rparr>))
         \<and> (\<forall>pool. read env (this\<lparr>mBufferGroup := pool\<rparr>) out options
               = Inr (err, None,
                      sought\<lparr>mSource := source, mInputBuffer := pulled,
                             mBufferGroup := pool\<rparr>))"
  using assms
  by (auto simp: read_def read_seek_def read_input_def pull_upstream_def discard_input_def
           split: option.splits if_splits)

text \<open>An exhausted source: end of stream comes back, with any engine and any pool.\<close>

theorem read_upstream_error_witness:
  "read (toy_env plain_format 2) (running_stage 7 None []) (Some ten_byte_unit) None
     = Inr (ERROR_END_OF_STREAM, None, running_stage 7 None [])
   \<and> ERROR_END_OF_STREAM \<noteq> OK
   \<and> (\<forall>decode.
         read ((toy_env plain_format 2)\<lparr>PVMP4AudioDecodeFrame := decode\<rparr>)
           (running_stage 7 None []) (Some ten_byte_unit) None
         = Inr (ERROR_END_OF_STREAM, None, running_stage 7 None []))
   \<and> (\<forall>pool.
         read (toy_env plain_format 2) ((running_stage 7 None [])\<lparr>mBufferGroup := pool\<rparr>)
           (Some ten_byte_unit) None
         = Inr (ERROR_END_OF_STREAM, None, (running_stage 7 None [])\<lparr>mBufferGroup := pool\<rparr>))"
proof -
  let ?env = "toy_env plain_format 2"
  let ?stage = "running_stage 7 None []"
  have absent: "mInputBuffer ?stage = None"
    by (simp add: running_stage_def)
  have seek: "read_seek ?env ?stage None = Inr (- 1, ?stage)"
    by (simp add: read_seek_def seek_request_def)
  have upstream: "source_read ?env (mSource ?stage) None
                    = (ERROR_END_OF_STREAM, None, mSource ?stage)"
    by (simp add: toy_defs)
  have failed: "ERROR_END_OF_STREAM \<noteq> OK"
    by (simp add: toy_defs)
  have same: "?stage\<lparr>mSource := mSource ?stage, mInputBuffer := None\<rparr> = ?stage"
    by (simp add: running_stage_def)
  from read_upstream_error [OF absent seek upstream failed, of "Some ten_byte_unit"]
    failed same
  show ?thesis by (simp add: running_stage_def)
qed

text \<open>
  C8. When \<open>read\<close> pulls a unit from upstream: with a timestamp on the unit the call
  goes on to decode with that timestamp as anchor and a sample count of zero; without
  one it goes on unchanged when no seek was requested, and dies on the \<^verbatim>\<open>CHECK\<close> of
  line 187 when one was. A unit that is stamped never reaches that \<^verbatim>\<open>CHECK\<close>.
\<close>

theorem read_fresh_unit_anchor:
  assumes seek: "read_seek env this options = Inr (seekTimeUs, sought)"
    and absent: "mInputBuffer sought = None"
    and pulled: "source_read env (mSource sought) options = (OK, Some unit, source)"
  shows "read env this out options
           = (case findInt64 (mMetaData unit) kKeyTime of
                Some timeUs \<Rightarrow>
                  read_decode env
                    (sought\<lparr>mSource := source, mInputBuffer := Some unit,
                           mAnchorTimeUs := timeUs, mNumSamplesOutput := 0\<rparr>)
              | None \<Rightarrow>
                  (case seek_request options of
                     None \<Rightarrow>
                       read_decode env
                         (sought\<lparr>mSource := source, mInputBuffer := Some unit\<rparr>)
                   | Some target \<Rightarrow> Inl CHECK_failed))"
proof (cases "findInt64 (mMetaData unit) kKeyTime")
  case (Some timeUs)
  with absent pulled
  have "read_input env sought options seekTimeUs
          = Inr (None, sought\<lparr>mSource := source, mInputBuffer := Some unit,
                   mAnchorTimeUs := timeUs, mNumSamplesOutput := 0\<rparr>)"
    by (simp add: read_input_def pull_upstream_def)
  from read_reaches_decode [OF seek this] Some show ?thesis by simp
next
  case None
  show ?thesis
  proof (cases "seek_request options")
    case no: None
    with seek have "seekTimeUs = - 1"
      by (simp add: read_seek_def)
    with absent pulled None
    have "read_input env sought options seekTimeUs
            = Inr (None, sought\<lparr>mSource := source, mInputBuffer := Some unit\<rparr>)"
      by (simp add: read_input_def pull_upstream_def)
    from read_reaches_decode [OF seek this] None no show ?thesis by simp
  next
    case (Some target)
    with seek have "0 \<le> sint seekTimeUs"
      by (auto simp: read_seek_def Let_def split: if_splits)
    with absent pulled None
    have "read_input env sought options seekTimeUs = Inl CHECK_failed"
      by (simp add: read_input_def pull_upstream_def)
    with seek None Some show ?thesis by (simp add: read_def)
  qed
qed

text \<open>
  A stamped unit moves the anchor to 5000; a bare unit after a seek aborts; a bare
  unit without a seek leaves anchor and count alone.
\<close>

theorem read_fresh_unit_anchor_witness:
  "read (toy_env plain_format 2) (running_stage 7 None [(OK, Some ten_byte_unit)]) None None
     = read_decode (toy_env plain_format 2)
         ((running_stage 0 (Some ten_byte_unit) [])\<lparr>mAnchorTimeUs := 5000\<rparr>)
   \<and> read (toy_env plain_format 2) (running_stage 7 None [(OK, Some corrupt_unit)]) None
       (Some \<lparr>getSeekTo = Some 1000\<rparr>)
     = Inl CHECK_failed
   \<and> read (toy_env plain_format 2) (running_stage 7 None [(OK, Some corrupt_unit)]) None None
     = read_decode (toy_env plain_format 2) (running_stage 7 (Some corrupt_unit) [])"
proof -
  let ?env = "toy_env plain_format 2"
  let ?seek = "Some \<lparr>getSeekTo = Some 1000\<rparr>"
  let ?stamped = "running_stage 7 None [(OK, Some ten_byte_unit)]"
  let ?bare = "running_stage 7 None [(OK, Some corrupt_unit)]"
  let ?drained = "(toy_source [])\<lparr>src_running := True\<rparr>"
  have seek1: "read_seek ?env ?stamped None = Inr (- 1, ?stamped)"
    and seek2: "read_seek ?env ?bare ?seek = Inr (1000, ?bare\<lparr>mNumSamplesOutput := 0\<rparr>)"
    and seek3: "read_seek ?env ?bare None = Inr (- 1, ?bare)"
    by (simp_all add: read_seek_def seek_request_def discard_input_def running_stage_def)
  have absent1: "mInputBuffer ?stamped = None"
    and absent2: "mInputBuffer (?bare\<lparr>mNumSamplesOutput := 0\<rparr>) = None"
    and absent3: "mInputBuffer ?bare = None"
    by (simp_all add: running_stage_def)
  have pulled1: "source_read ?env (mSource ?stamped) None = (OK, Some ten_byte_unit, ?drained)"
    and pulled2: "source_read ?env (mSource (?bare\<lparr>mNumSamplesOutput := 0\<rparr>)) ?seek
                    = (OK, Some corrupt_unit, ?drained)"
    and pulled3: "source_read ?env (mSource ?bare) None = (OK, Some corrupt_unit, ?drained)"
    by (simp_all add: toy_defs)
  from read_fresh_unit_anchor [OF seek1 absent1 pulled1, of None]
    read_fresh_unit_anchor [OF seek2 absent2 pulled2, of None]
    read_fresh_unit_anchor [OF seek3 absent3 pulled3, of None]
  show ?thesis
    by (simp add: toy_defs meta_defs seek_request_def)
qed

text \<open>
  C3. A read whose decode step signals failure is to return success all the same,
  with silence in the buffer and the input discarded. The code logs "substituting
  silence", zero-fills and falls through, but then divides by the sampling rate the
  engine left in the record without looking at it: on a stage just started, with a
  record that no decode has filled in yet, a first unit that the engine rejects
  leaves that rate at zero, and the call ends in the division of line 239 instead of
  returning.
\<close>

theorem read_silence_division_by_zero:
  "start (toy_env plain_format 1024)
     (new_AACDecoder (toy_source [(OK, Some corrupt_unit)]) zero_config) None
     = Inr (OK, started_stage [(OK, Some corrupt_unit)])
   \<and> read (toy_env plain_format 1024) (started_stage [(OK, Some corrupt_unit)]) None None
     = Inl Division_by_zero"
  by (simp add: stage_defs toy_defs meta_defs buffer_defs)

text \<open>
  Likewise a rejected unit while the record reports 2048 frames: the 8192 bytes of
  silence of line 214 do not fit the buffer.
\<close>

lemma read_silence_write_past_end:
  "read (toy_env plain_format 2)
     ((running_stage 1024 (Some corrupt_unit) [])
        \<lparr>mConfig := (mConfig (running_stage 1024 None []))\<lparr>frameLength := 2048\<rparr>\<rparr>)
     None None
   = Inl Write_past_end"
  by (simp add: stage_defs toy_defs meta_defs buffer_defs)

text \<open>
  When the engine that signals failure reports a sampling rate other than zero and
  a frame length whose output size is within the capacity of the acquired buffer,
  the call does return \<open>OK\<close> with that buffer: zero over the output size, range
  \<open>[0, size)\<close>, stamped; the held input released whatever its window, and no input
  held afterwards.
\<close>

lemma read_decode_failure_silence:
  assumes seek: "read_seek env this options = Inr (seekTimeUs, sought)"
    and pull: "read_input env sought options seekTimeUs = Inr (None, fed)"
    and pool: "mBufferGroup fed = Some pool"
    and acquire: "acquire_buffer pool = Some (buffer, pool')"
    and held: "mInputBuffer fed = Some input"
    and block: "mDecoderBuf fed = Some block"
    and step: "PVMP4AudioDecodeFrame env (feed_engine (mConfig fed) input buffer) block
                 = (decoderErr, config, block', pcm)"
    and failure: "decoderErr \<noteq> MP4AUDEC_SUCCESS"
    and fits: "unat (numOutBytes config) \<le> unat (mSize buffer)"
    and rate: "samplingRate config \<noteq> 0"
  shows "read env this out options =
           Inr (OK,
                Some (buffer
                  \<lparr>mData := replicate (unat (numOutBytes config)) 0
                             @ drop (unat (numOutBytes config)) pcm,
                   mRangeOffset := 0,
                   mRangeLength := numOutBytes config,
                   mMetaData := setInt64 (mMetaData buffer) kKeyTime
                     (mAnchorTimeUs fed
                        + div_int64 (mNumSamplesOutput fed * 1000000)
                            (scast (samplingRate config)))\<rparr>),
                fed\<lparr>mSource := input_release env input (mSource fed),
                    mBufferGroup := Some pool',
                    mConfig := config,
                    mDecoderBuf := Some block',
                    mNumSamplesOutput :=
                      mNumSamplesOutput fed + scast (frameLength config),
                    mInputBuffer := None\<rparr>)"
proof -
  have "read_decode env fed = Inr (OK,
                Some (buffer
                  \<lparr>mData := replicate (unat (numOutBytes config)) 0
                             @ drop (unat (numOutBytes config)) pcm,
                   mRangeOffset := 0,
                   mRangeLength := numOutBytes config,
                   mMetaData := setInt64 (mMetaData buffer) kKeyTime
                     (mAnchorTimeUs fed
                        + div_int64 (mNumSamplesOutput fed * 1000000)
                            (scast (samplingRate config)))\<rparr>),
                fed\<lparr>mSource := input_release env input (mSource fed),
                    mBufferGroup := Some pool',
                    mConfig := config,
                    mDecoderBuf := Some block',
                    mNumSamplesOutput :=
                      mNumSamplesOutput fed + scast (frameLength config),
                    mInputBuffer := None\<rparr>)"
    using pool acquire held block step failure fits rate
    by (simp add: read_decode_def substitute_silence_def memset_zero_def set_range_def
          advance_input_def stamp_output_def)
  with read_reaches_decode [OF seek pull] show ?thesis by simp
qed

text \<open>
  A held unit of three unconsumed bytes that the engine rejects, 1024 samples into
  the run at 44100 Hz: eight bytes of silence stamped 23219.
\<close>

lemma read_decode_failure_silence_run:
  "read (toy_env plain_format 2) (running_stage 1024 (Some corrupt_unit) []) None None
     = Inr (OK,
            Some \<lparr>mData = replicate 8 0, mSize = 8, mRangeOffset = 0, mRangeLength = 8,
                  mMetaData = setInt64 new_MetaData kKeyTime 23219\<rparr>,
            (running_stage 1026 None [])
              \<lparr>mSource := (toy_source [])
                   \<lparr>src_returned := [corrupt_unit], src_running := True\<rparr>,
               mBufferGroup := Some [],
               mConfig := feed_engine (mConfig (running_stage 1024 None []))
                            corrupt_unit (new_MediaBuffer (\<lambda>n. replicate (unat n) 7) 8)\<rparr>)"
proof -
  let ?env = "toy_env plain_format 2"
  let ?stage = "running_stage 1024 (Some corrupt_unit) []"
  let ?buffer = "new_MediaBuffer (\<lambda>n. replicate (unat n) 7) 8"
  let ?config = "feed_engine (mConfig ?stage) corrupt_unit ?buffer"
  have seek: "read_seek ?env ?stage None = Inr (- 1, ?stage)"
    by (simp add: read_seek_def seek_request_def)
  have pull: "read_input ?env ?stage None (- 1) = Inr (None, ?stage)"
    by (simp add: read_input_def running_stage_def)
  have pool: "mBufferGroup ?stage = Some [?buffer]"
    by (simp add: running_stage_def)
  have acquire: "acquire_buffer [?buffer] = Some (?buffer, [])"
    by (simp add: acquire_buffer_def)
  have held: "mInputBuffer ?stage = Some corrupt_unit"
    by (simp add: running_stage_def)
  have block: "mDecoderBuf ?stage = Some 1"
    by (simp add: running_stage_def)
  have step: "PVMP4AudioDecodeFrame ?env ?config 1
                = (MP4AUDEC_INVALID_FRAME, ?config, 1, replicate 8 7)"
    by (simp add: toy_defs feed_engine_def new_MediaBuffer_def)
  have failure: "MP4AUDEC_INVALID_FRAME \<noteq> MP4AUDEC_SUCCESS"
    by (simp add: toy_defs)
  have fits: "unat (numOutBytes ?config) \<le> unat (mSize ?buffer)"
    by (simp add: toy_defs feed_engine_def numOutBytes_def new_MediaBuffer_def)
  have rate: "samplingRate ?config \<noteq> 0"
    by (simp add: toy_defs feed_engine_def)
  from read_decode_failure_silence
         [OF seek pull pool acquire held block step failure fits rate, of None]
  show ?thesis
    by (simp add: toy_defs feed_engine_def numOutBytes_def new_MediaBuffer_def div_int64_def
          meta_defs)
qed

text \<open>
  C6. In a call that reaches the decode step, when the decode step succeeds, the call
  ends in the division of line 239 when the engine reports a sampling rate of zero and
  returns \<open>OK\<close> otherwise; it then leaves the input's window moved by the bytes the
  engine reports as used (offset up, length down, in \<^verbatim>\<open>size_t\<close> arithmetic), and the
  input released and no longer held exactly when the length left is zero, held with
  the moved window otherwise.
\<close>

theorem read_advances_input:
  assumes seek: "read_seek env this options = Inr (seekTimeUs, sought)"
    and pull: "read_input env sought options seekTimeUs = Inr (None, fed)"
    and pool: "mBufferGroup fed = Some pool"
    and acquire: "acquire_buffer pool = Some (buffer, pool')"
    and held: "mInputBuffer fed = Some input"
    and block: "mDecoderBuf fed = Some block"
    and step: "PVMP4AudioDecodeFrame env (feed_engine (mConfig fed) input buffer) block
                 = (MP4AUDEC_SUCCESS, config, block', pcm)"
    and moved: "moved = input
                  \<lparr>mRangeOffset := mRangeOffset input + scast (inputBufferUsedLength config),
                   mRangeLength := mRangeLength input - scast (inputBufferUsedLength config)\<rparr>"
  shows "read env this out options =
           (if samplingRate config = 0 then Inl Division_by_zero
            else
              Inr (OK,
                   Some (buffer
                     \<lparr>mData := pcm,
                      mRangeOffset := 0,
                      mRangeLength := numOutBytes config,
                      mMetaData := setInt64 (mMetaData buffer) kKeyTime
                        (mAnchorTimeUs fed
                           + div_int64 (mNumSamplesOutput fed * 1000000)
                               (scast (samplingRate config)))\<rparr>),
                   fed\<lparr>mSource := (if mRangeLength moved = 0
                                   then input_release env moved (mSource fed)
                                   else mSource fed),
                       mBufferGroup := Some pool',
                       mConfig := config,
                       mDecoderBuf := Some block',
                       mNumSamplesOutput :=
                         mNumSamplesOutput fed + scast (frameLength config),
                       mInputBuffer := (if mRangeLength moved = 0 then None
                                        else Some moved)\<rparr>))"
proof -
  have "read_decode env fed =
           (if samplingRate config = 0 then Inl Division_by_zero
            else
              Inr (OK,
                   Some (buffer
                     \<lparr>mData := pcm,
                      mRangeOffset := 0,
                      mRangeLength := numOutBytes config,
                      mMetaData := setInt64 (mMetaData buffer) kKeyTime
                        (mAnchorTimeUs fed
                           + div_int64 (mNumSamplesOutput fed * 1000000)
                               (scast (samplingRate config)))\<rparr>),
                   fed\<lparr>mSource := (if mRangeLength moved = 0
                                   then input_release env moved (mSource fed)
                                   else mSource fed),
                       mBufferGroup := Some pool',
                       mConfig := config,
                       mDecoderBuf := Some block',
                       mNumSamplesOutput :=
                         mNumSamplesOutput fed + scast (frameLength config),
                       mInputBuffer := (if mRangeLength moved = 0 then None
                                        else Some moved)\<rparr>))"
    using pool acquire held block step moved
    by (simp add: read_decode_def substitute_silence_def set_range_def advance_input_def
          stamp_output_def Let_def)
  with read_reaches_decode [OF seek pull] show ?thesis by simp
qed

text \<open>
  A unit of ten bytes on an engine that uses six at a time: after the first call the
  window is \<open>(6, 4)\<close> and the unit is held, after the second it is released.
\<close>

theorem read_advances_input_witness:
  "(\<exists>out this'.
      read (toy_env plain_format 2) (running_stage 0 None [(OK, Some ten_byte_unit)])
        None None = Inr (OK, out, this')
      \<and> mInputBuffer this'
          = Some (ten_byte_unit\<lparr>mRangeOffset := 6, mRangeLength := 4\<rparr>)
      \<and> src_returned (mSource this') = [])
   \<and> (\<exists>out this'.
      read (toy_env plain_format 2)
        (running_stage 2 (Some (ten_byte_unit\<lparr>mRangeOffset := 6, mRangeLength := 4\<rparr>)) [])
        None None = Inr (OK, out, this')
      \<and> mInputBuffer this' = None
      \<and> src_returned (mSource this')
          = [ten_byte_unit\<lparr>mRangeOffset := 10, mRangeLength := 0\<rparr>])"
proof -
  let ?env = "toy_env plain_format 2"
  let ?buffer = "new_MediaBuffer (\<lambda>n. replicate (unat n) 7) 8"
  have acquire: "acquire_buffer [?buffer] = Some (?buffer, [])"
    by (simp add: acquire_buffer_def)
  have first: "\<exists>out this'.
      read ?env (running_stage 0 None [(OK, Some ten_byte_unit)]) None None
        = Inr (OK, out, this')
      \<and> mInputBuffer this'
          = Some (ten_byte_unit\<lparr>mRangeOffset := 6, mRangeLength := 4\<rparr>)
      \<and> src_returned (mSource this') = []"
  proof -
    let ?stage = "running_stage 0 None [(OK, Some ten_byte_unit)]"
    let ?fed = "?stage\<lparr>mSource := (toy_source [])\<lparr>src_running := True\<rparr>,
                      mInputBuffer := Some ten_byte_unit,
                      mAnchorTimeUs := 5000, mNumSamplesOutput := 0\<rparr>"
    let ?config = "(feed_engine (mConfig ?fed) ten_byte_unit ?buffer)
                     \<lparr>frameLength := 2, samplingRate := 44100,
                      inputBufferUsedLength := 6\<rparr>"
    have seek: "read_seek ?env ?stage None = Inr (- 1, ?stage)"
      by (simp add: read_seek_def seek_request_def)
    have pull: "read_input ?env ?stage None (- 1) = Inr (None, ?fed)"
      by (simp add: read_input_def pull_upstream_def toy_defs meta_defs)
    have pool: "mBufferGroup ?fed = Some [?buffer]"
      by (simp add: running_stage_def)
    have held: "mInputBuffer ?fed = Some ten_byte_unit"
      by simp
    have block: "mDecoderBuf ?fed = Some 1"
      by (simp add: running_stage_def)
    have step: "PVMP4AudioDecodeFrame ?env (feed_engine (mConfig ?fed) ten_byte_unit ?buffer) 1
                  = (MP4AUDEC_SUCCESS, ?config, 2, replicate 8 1)"
      by (simp add: toy_defs feed_engine_def new_MediaBuffer_def)
    have moved: "ten_byte_unit\<lparr>mRangeOffset := 6, mRangeLength := 4\<rparr>
                   = ten_byte_unit
                       \<lparr>mRangeOffset := mRangeOffset ten_byte_unit
                                         + scast (inputBufferUsedLength ?config),
                        mRangeLength := mRangeLength ten_byte_unit
                                         - scast (inputBufferUsedLength ?config)\<rparr>"
      by (simp add: toy_defs)
    from read_advances_input [OF seek pull pool acquire held block step moved, of None]
    show ?thesis
      by (simp add: toy_defs)
  qed
  have second: "\<exists>out this'.
      read ?env
        (running_stage 2 (Some (ten_byte_unit\<lparr>mRangeOffset := 6, mRangeLength := 4\<rparr>)) [])
        None None = Inr (OK, out, this')
      \<and> mInputBuffer this' = None
      \<and> src_returned (mSource this')
          = [ten_byte_unit\<lparr>mRangeOffset := 10, mRangeLength := 0\<rparr>]"
  proof -
    let ?input = "ten_byte_unit\<lparr>mRangeOffset := 6, mRangeLength := 4\<rparr>"
    let ?stage = "running_stage 2 (Some ?input) []"
    let ?config = "(feed_engine (mConfig ?stage) ?input ?buffer)
                     \<lparr>frameLength := 2, samplingRate := 44100,
                      inputBufferUsedLength := 4\<rparr>"
    have seek: "read_seek ?env ?stage None = Inr (- 1, ?stage)"
      by (simp add: read_seek_def seek_request_def)
    have pull: "read_input ?env ?stage None (- 1) = Inr (None, ?stage)"
      by (simp add: read_input_def running_stage_def)
    have pool: "mBufferGroup ?stage = Some [?buffer]"
      by (simp add: running_stage_def)
    have held: "mInputBuffer ?stage = Some ?input"
      by (simp add: running_stage_def)
    have block: "mDecoderBuf ?stage = Some 1"
      by (simp add: running_stage_def)
    have step: "PVMP4AudioDecodeFrame ?env (feed_engine (mConfig ?stage) ?input ?buffer) 1
                  = (MP4AUDEC_SUCCESS, ?config, 2, replicate 8 1)"
      by (simp add: toy_defs feed_engine_def new_MediaBuffer_def)
    have moved: "ten_byte_unit\<lparr>mRangeOffset := 10, mRangeLength := 0\<rparr>
                   = ?input
                       \<lparr>mRangeOffset := mRangeOffset ?input
                                         + scast (inputBufferUsedLength ?config),
                        mRangeLength := mRangeLength ?input
                                         - scast (inputBufferUsedLength ?config)\<rparr>"
      by (simp add: toy_defs)
    from read_advances_input [OF seek pull pool acquire held block step moved, of None]
    show ?thesis
      by (simp add: toy_defs)
  qed
  from first second show ?thesis by blast
qed

text \<open>
  C4. Every call that returns a buffer went through the seek block and the input
  block to a stage \<open>fed\<close>, acquired a buffer and ran the decode step on the input
  held. With \<open>config\<close> the record as that step returned it, the buffer's timestamp is
  the anchor of \<open>fed\<close> plus its sample count times 1000000 divided by the sampling
  rate of \<open>config\<close>, in 64-bit arithmetic; the stage's sample count afterwards is
  that of \<open>fed\<close> plus the frame length of \<open>config\<close>, whatever status the step
  returned, silence or not.
\<close>

theorem read_timestamp:
  assumes "read env this out options = Inr (err, Some buffer, this')"
  shows "\<exists>seekTimeUs sought fed pool acquired pool' input block decoderErr config block' pcm.
           read_seek env this options = Inr (seekTimeUs, sought)
           \<and> read_input env sought options seekTimeUs = Inr (None, fed)
           \<and> mBufferGroup fed = Some pool
           \<and> acquire_buffer pool = Some (acquired, pool')
           \<and> mInputBuffer fed = Some input
           \<and> mDecoderBuf fed = Some block
           \<and> PVMP4AudioDecodeFrame env (feed_engine (mConfig fed) input acquired) block
               = (decoderErr, config, block', pcm)
           \<and> findInt64 (mMetaData buffer) kKeyTime
               = Some (mAnchorTimeUs fed
                        + div_int64 (mNumSamplesOutput fed * 1000000)
                            (scast (samplingRate config)))
           \<and> mNumSamplesOutput this'
               = mNumSamplesOutput fed + scast (frameLength config)
           \<and> mAnchorTimeUs this' = mAnchorTimeUs fed
           \<and> mConfig this' = config"
proof -
  from read_returns_buffer [OF assms] obtain seekTimeUs sought fed
    where seek: "read_seek env this options = Inr (seekTimeUs, sought)"
      and pull: "read_input env sought options seekTimeUs = Inr (None, fed)"
      and d: "read_decode env fed = Inr (err, Some buffer, this')"
    by blast
  from read_decode_timestamp [OF d] seek pull show ?thesis by blast
qed

text \<open>
  A stage 1024 samples into its run whose record still says 44100 Hz and two frames,
  on an engine that reports 48000 Hz and one frame: the buffer is stamped 21333 and
  the count becomes 1025, when the engine accepts the unit and when it rejects it.
\<close>

theorem read_timestamp_witness:
  "samplingRate (mConfig (running_stage 1024 (Some ten_byte_unit) [])) = 44100
   \<and> frameLength (mConfig (running_stage 1024 (Some ten_byte_unit) [])) = 2
   \<and> (\<exists>buffer this'.
        read ((toy_env plain_format 2)
                \<lparr>PVMP4AudioDecodeFrame := reporting_decode MP4AUDEC_SUCCESS 48000 1\<rparr>)
          (running_stage 1024 (Some ten_byte_unit) []) None None
          = Inr (OK, Some buffer, this')
        \<and> findInt64 (mMetaData buffer) kKeyTime = Some 21333
        \<and> mNumSamplesOutput this' = 1025)
   \<and> (\<exists>buffer this'.
        read ((toy_env plain_format 2)
                \<lparr>PVMP4AudioDecodeFrame := reporting_decode MP4AUDEC_INVALID_FRAME 48000 1\<rparr>)
          (running_stage 1024 (Some ten_byte_unit) []) None None
          = Inr (OK, Some buffer, this')
        \<and> findInt64 (mMetaData buffer) kKeyTime = Some 21333
        \<and> mNumSamplesOutput this' = 1025)"
proof -
  let ?stage = "running_stage 1024 (Some ten_byte_unit) []"
  have before: "samplingRate (mConfig ?stage) = 44100 \<and> frameLength (mConfig ?stage) = 2"
    by (simp add: running_stage_def zero_config_def)
  have stamped: "\<exists>buffer this'.
        read ((toy_env plain_format 2)
                \<lparr>PVMP4AudioDecodeFrame := reporting_decode status 48000 1\<rparr>)
          ?stage None None = Inr (OK, Some buffer, this')
        \<and> findInt64 (mMetaData buffer) kKeyTime = Some 21333
        \<and> mNumSamplesOutput this' = 1025"
    if status: "status = MP4AUDEC_SUCCESS \<or> status = MP4AUDEC_INVALID_FRAME" for status
  proof -
    let ?env = "(toy_env plain_format 2)
                  \<lparr>PVMP4AudioDecodeFrame := reporting_decode status 48000 1\<rparr>"
    from status obtain buffer this'
      where run: "read ?env ?stage None None = Inr (OK, Some buffer, this')"
      by (auto simp: stage_defs toy_defs meta_defs buffer_defs)
    from read_timestamp [OF run]
    obtain seekTimeUs sought fed pool acquired pool' input block decoderErr config block' pcm
      where seek: "read_seek ?env ?stage None = Inr (seekTimeUs, sought)"
        and pull: "read_input ?env sought None seekTimeUs = Inr (None, fed)"
        and pool: "mBufferGroup fed = Some pool"
        and acquire: "acquire_buffer pool = Some (acquired, pool')"
        and held: "mInputBuffer fed = Some input"
        and block: "mDecoderBuf fed = Some block"
        and step: "PVMP4AudioDecodeFrame ?env (feed_engine (mConfig fed) input acquired) block
                     = (decoderErr, config, block', pcm)"
        and time: "findInt64 (mMetaData buffer) kKeyTime
                     = Some (mAnchorTimeUs fed
                              + div_int64 (mNumSamplesOutput fed * 1000000)
                                  (scast (samplingRate config)))"
        and count: "mNumSamplesOutput this'
                     = mNumSamplesOutput fed + scast (frameLength config)"
      by blast
    from seek have sought: "sought = ?stage"
      by (simp add: read_seek_def seek_request_def)
    from pull have fed: "fed = ?stage"
      unfolding sought by (simp add: read_input_def running_stage_def)
    from step have "samplingRate config = 48000 \<and> frameLength config = 1"
      by (auto simp: toy_env_def reporting_decode_def)
    with time count have "findInt64 (mMetaData buffer) kKeyTime = Some 21333
                          \<and> mNumSamplesOutput this' = 1025"
      unfolding fed by (simp add: running_stage_def div_int64_def)
    with run show ?thesis by blast
  qed
  from before stamped [of MP4AUDEC_SUCCESS] stamped [of MP4AUDEC_INVALID_FRAME]
  show ?thesis by simp
qed

end
